theory Spec2Isabelle
  imports Complex_Main "HOL-Library.Sublist"
begin

section \<open>Python helpers used by the embedded code\<close>

text \<open>
  Strings are lists of characters; a character stands for a code point below 256.
  Integers are Python's unbounded ints. Points in time (\<open>datetime.utcnow()\<close>) are
  integers counting microseconds, the resolution of \<open>datetime\<close>; a \<open>timedelta\<close> is
  the corresponding number of microseconds.
\<close>

definition digit_char :: "nat \<Rightarrow> char" where
  "digit_char n = ''0123456789'' ! n"

function str_nat :: "nat \<Rightarrow> string" where
  "str_nat n = (if n < 10 then [digit_char n] else str_nat (n div 10) @ [digit_char (n mod 10)])"
  by pat_completeness auto
termination
  by (relation "measure id") auto

declare str_nat.simps [simp del]

text \<open>\<open>str(i)\<close> for an int, as an f-string formats it.\<close>

definition str_int :: "int \<Rightarrow> string" where
  "str_int i = (if i < 0 then CHR ''-'' # str_nat (nat (- i)) else str_nat (nat i))"

text \<open>
  \<open>int(followers * m)\<close> for a follower count and a decimal multiplier \<open>m = num / den\<close>:
  the product truncated toward zero. The source computes the product in double precision;
  the multipliers 0.5, 2.0, 2.5, 3.0 and 5.0 are exact doubles, and for 0.3 and 0.4 the
  rounded product of a count below \<open>2 ^ 50\<close> truncates to the same integer as the exact
  one, so the exact product is used here.
\<close>

definition int_mul :: "int \<Rightarrow> int \<Rightarrow> int \<Rightarrow> int" where
  "int_mul followers num den =
     (let p = followers * num in if 0 \<le> p then p div den else - ((- p) div den))"

section \<open>PeerPoolManager: pool keys\<close>

text \<open>
  Lines 48-67 of \<open>generate_pool_key\<close>: the follower range of the tier, each bound
  rounded down to a multiple of 100 (\<open>//\<close> is floor division).
\<close>

definition pool_range :: "int \<Rightarrow> int \<times> int" where
  "pool_range followers =
     (let (min_range, max_range) =
        (if followers < 500 then (int_mul followers 3 10, int_mul followers 5 1)
         else if followers < 1000 then (int_mul followers 3 10, int_mul followers 5 1)
         else if followers < 5000 then (int_mul followers 4 10, int_mul followers 3 1)
         else if followers < 10000 then (int_mul followers 5 10, int_mul followers 25 10)
         else (int_mul followers 5 10, int_mul followers 2 1))
      in ((min_range div 100) * 100, (max_range div 100) * 100))"

definition generate_pool_key :: "string \<Rightarrow> int \<Rightarrow> string" where
  "generate_pool_key niche followers =
     (case pool_range followers of
        (min_range, max_range) \<Rightarrow> niche @ ''_'' @ str_int min_range @ ''-'' @ str_int max_range)"

text \<open>The band width ratio \<open>highBound / lowBound\<close> of the specification.\<close>

definition band_ratio :: "int \<Rightarrow> rat" where
  "band_ratio followers = of_int (snd (pool_range followers)) / of_int (fst (pool_range followers))"

section \<open>Pool-key theorems\<close>

lemma str_nat_2500: "str_nat 2500 = ''2500''"
  by (simp add: str_nat.simps [of 2500] str_nat.simps [of 250] str_nat.simps [of 25]
      str_nat.simps [of 2] digit_char_def)

lemma str_nat_12500: "str_nat 12500 = ''12500''"
  by (simp add: str_nat.simps [of 12500] str_nat.simps [of 1250] str_nat.simps [of 125]
      str_nat.simps [of 12] str_nat.simps [of "Suc 0"] digit_char_def)

lemma pool_range_5000: "pool_range 5000 = (2500, 12500)"
  by (simp add: pool_range_def int_mul_def)

text \<open>
  C2 (as stated, refuted): for 5000 followers and niche finance the derived key is not
  \<open>finance_2000-15000\<close>.
\<close>

theorem C2_pool_key_5000_counterexample:
  "generate_pool_key ''finance'' 5000 \<noteq> ''finance_2000-15000''"
  by (simp add: generate_pool_key_def pool_range_5000 str_int_def str_nat_2500 str_nat_12500)

text \<open>
  C2 (amended): 5000 followers fall in the tier from 5000 to 9999, whose multipliers are
  0.5 and 2.5, and the key is \<open>finance_2500-12500\<close>.
\<close>

theorem C2_pool_key_5000:
  "generate_pool_key ''finance'' 5000 = ''finance_2500-12500''"
  by (simp add: generate_pool_key_def pool_range_5000 str_int_def str_nat_2500 str_nat_12500)

end
